theory Spec2Isabelle
  imports Main "HOL-Library.Char_ord" "HOL-Library.List_Lexorder" "HOL-Library.Sublist"
    "HOL-Library.Multiset"
begin

section \<open>Strings\<close>

text \<open>
  A Python \<open>str\<close> is modelled as a \<open>string\<close> (a list of 8-bit characters): a file name is
  the byte sequence the operating system stores.  Comparing two such lists
  lexicographically (\<open>HOL-Library.List_Lexorder\<close> over \<open>HOL-Library.Char_ord\<close>) orders them
  as Python orders the decoded strings, since UTF-8 preserves code point order, and the
  characters the script inspects (\<open>/\<close>, the backslash, \<open>*\<close>, \<open>?\<close>, \<open>[\<close>, \<open>.\<close>, the newline)
  are ASCII.
\<close>

abbreviation bsl :: char where
  "bsl \<equiv> CHR 0x5C"

abbreviation LF :: char where
  "LF \<equiv> CHR 0x0A"

abbreviation CR :: char where
  "CR \<equiv> CHR 0x0D"

text \<open>\<open>s.split(sep)\<close> for a one-character separator: never empty, \<open>''.split('/') == ['']\<close>.\<close>

fun split_on :: "char \<Rightarrow> string \<Rightarrow> string list" where
  "split_on d [] = [[]]"
| "split_on d (c # cs) =
     (if c = d then [] # split_on d cs
      else (case split_on d cs of [] \<Rightarrow> [[c]] | l # ls \<Rightarrow> (c # l) # ls))"

text \<open>\<open>sep.join(parts)\<close>.\<close>

fun sep_join :: "string \<Rightarrow> string list \<Rightarrow> string" where
  "sep_join sep [] = []"
| "sep_join sep [x] = x"
| "sep_join sep (x # y # ys) = x @ sep @ sep_join sep (y # ys)"

text \<open>\<open>s.replace(old, new)\<close> for single characters.\<close>

definition replace :: "char \<Rightarrow> char \<Rightarrow> string \<Rightarrow> string" where
  "replace old new s = map (\<lambda>c. if c = old then new else c) s"

text \<open>\<open>s.rstrip('/')\<close>.\<close>

definition rstrip_sep :: "string \<Rightarrow> string" where
  "rstrip_sep s = rev (dropWhile (\<lambda>c. c = CHR ''/'') (rev s))"

section \<open>\<open>posixpath\<close>: the path functions \<open>find_sources\<close> calls\<close>

definition isabs :: "string \<Rightarrow> bool" where
  "isabs s = (s \<noteq> [] \<and> hd s = CHR ''/'')"

text \<open>\<open>os.path.join(a, b)\<close>: an absolute \<open>b\<close> discards \<open>a\<close>.\<close>

definition join_py :: "string \<Rightarrow> string \<Rightarrow> string" where
  "join_py a b =
     (if isabs b then b
      else if a = [] \<or> last a = CHR ''/'' then a @ b
      else a @ ''/'' @ b)"

text \<open>
  \<open>os.path.split(p)\<close>: the tail is what follows the last slash, the head what precedes
  it, with its trailing slashes stripped unless it consists of slashes only.
\<close>

definition split_py :: "string \<Rightarrow> string \<times> string" where
  "split_py p =
     (let tail = rev (takeWhile (\<lambda>c. c \<noteq> CHR ''/'') (rev p));
          head = take (length p - length tail) p
      in (if head \<noteq> [] \<and> (\<exists>c \<in> set head. c \<noteq> CHR ''/'') then rstrip_sep head else head,
          tail))"

text \<open>One step of the loop of \<open>normpath\<close> over the components of the path.\<close>

definition norm_step :: "nat \<Rightarrow> string list \<Rightarrow> string \<Rightarrow> string list" where
  "norm_step initial_slashes new_comps c =
     (if c = [] \<or> c = ''.'' then new_comps
      else if c \<noteq> ''..'' \<or> (initial_slashes = 0 \<and> new_comps = [])
              \<or> (new_comps \<noteq> [] \<and> last new_comps = ''..'')
        then new_comps @ [c]
      else if new_comps \<noteq> [] then butlast new_comps
      else new_comps)"

definition normpath :: "string \<Rightarrow> string" where
  "normpath path =
     (if path = [] then ''.''
      else
        let initial_slashes =
              (if isabs path
               then (if take 2 path = ''//'' \<and> take 3 path \<noteq> ''///'' then 2 else 1)
               else 0);
            comps = foldl (norm_step initial_slashes) [] (split_on CHR ''/'' path);
            p = replicate initial_slashes CHR ''/'' @ sep_join ''/'' comps
        in if p = [] then ''.'' else p)"

text \<open>\<open>genericpath.commonprefix\<close> of two component lists: their longest common prefix.\<close>

fun commonprefix :: "string list \<Rightarrow> string list \<Rightarrow> string list" where
  "commonprefix (x # xs) (y # ys) = (if x = y then x # commonprefix xs ys else [])"
| "commonprefix _ _ = []"

section \<open>The filesystem and the run-time environment\<close>

text \<open>
  A directory holds its entries in the order \<open>os.scandir\<close> reports them, which the
  operating system does not specify.  Symbolic links and permissions are not modelled.
\<close>

datatype node = File | Dir "(string \<times> node) list"

text \<open>
  What a run reads and writes: the directory tree from the root, the string
  \<open>os.getcwd()\<close> returns, the contents of the regular files the run writes (by the name
  passed to \<open>open\<close>), and what has been printed.  The field \<open>re_class\<close> stands for the
  part of \<open>fnmatch\<close> that is not modelled: \<open>re_class w stuff c\<close> says whether the regular
  expression \<open>fnmatch.translate\<close> builds for the bracket expression \<open>[stuff]\<close> matches
  the character \<open>c\<close>.  Every theorem holds for every such function.
\<close>

record world =
  root :: node
  cwd :: string
  re_class :: "string \<Rightarrow> char \<Rightarrow> bool"
  written :: "string \<rightharpoonup> string"
  stdout :: string

fun is_dir :: "node \<Rightarrow> bool" where
  "is_dir File = False"
| "is_dir (Dir es) = True"

text \<open>
  Path resolution as the kernel does it, on the stack of directories from the current
  one up to the root: an empty component and \<open>.\<close> stay, \<open>..\<close> goes up (the root is
  its own parent), a name is looked up in the current directory, and any component
  after a regular file fails.
\<close>

fun walk :: "node list \<Rightarrow> string list \<Rightarrow> node list option" where
  "walk st [] = Some st"
| "walk [] (c # cs) = None"
| "walk (File # up) (c # cs) = None"
| "walk (Dir es # up) (c # cs) =
     (if c = [] \<or> c = ''.'' then walk (Dir es # up) cs
      else if c = ''..'' then walk (if up = [] then [Dir es] else up) cs
      else (case map_of es c of
              None \<Rightarrow> None
            | Some n \<Rightarrow> walk (n # Dir es # up) cs))"

text \<open>\<open>os.stat(path)\<close>: the node the path names, \<open>None\<close> for an \<open>OSError\<close>.\<close>

definition os_stat :: "world \<Rightarrow> string \<Rightarrow> node option" where
  "os_stat w path =
     (if path = [] then None
      else
        (case (if isabs path then Some [root w]
               else walk [root w] (split_on CHR ''/'' (cwd w))) of
           None \<Rightarrow> None
         | Some st \<Rightarrow>
             (case walk st (split_on CHR ''/'' path) of
                None \<Rightarrow> None
              | Some [] \<Rightarrow> None
              | Some (n # up) \<Rightarrow> Some n)))"

definition lexists :: "world \<Rightarrow> string \<Rightarrow> bool" where
  "lexists w path = (os_stat w path \<noteq> None)"

definition isdir :: "world \<Rightarrow> string \<Rightarrow> bool" where
  "isdir w path = (case os_stat w path of Some (Dir es) \<Rightarrow> True | _ \<Rightarrow> False)"

definition abspath :: "world \<Rightarrow> string \<Rightarrow> string" where
  "abspath w path = normpath (if isabs path then path else join_py (cwd w) path)"

datatype error = ValueError

text \<open>
  \<open>os.path.relpath(path, '.')\<close>: it raises \<open>ValueError\<close> on the empty path, and
  otherwise returns what \<open>relpath_body\<close> computes.
\<close>

definition relpath_body :: "world \<Rightarrow> string \<Rightarrow> string" where
  "relpath_body w path =
     (let start_list = filter (\<lambda>x. x \<noteq> []) (split_on CHR ''/'' (abspath w ''.''));
          path_list = filter (\<lambda>x. x \<noteq> []) (split_on CHR ''/'' (abspath w path));
          i = length (commonprefix start_list path_list);
          rel_list = replicate (length start_list - i) ''..'' @ drop i path_list
      in if rel_list = [] then ''.''
         else foldl join_py (hd rel_list) (tl rel_list))"

definition relpath :: "world \<Rightarrow> string \<Rightarrow> error + string" where
  "relpath w path = (if path = [] then Inl ValueError else Inr (relpath_body w path))"

section \<open>\<open>fnmatch\<close> and \<open>glob\<close>\<close>

text \<open>
  The scan of \<open>fnmatch.translate\<close> after a \<open>[\<close>: skip a leading \<open>!\<close>, skip a \<open>]\<close> that
  comes first, then run to the next \<open>]\<close>.  The result is the text between the brackets
  and the rest of the pattern, or \<open>None\<close> when the bracket is never closed.
\<close>

definition bracket_end :: "string \<Rightarrow> (string \<times> string) option" where
  "bracket_end p =
     (let a = (if p \<noteq> [] \<and> hd p = CHR ''!'' then 1 else 0);
          b = (if a < length p \<and> p ! a = CHR '']'' then a + 1 else a);
          j = b + length (takeWhile (\<lambda>c. c \<noteq> CHR '']'') (drop b p))
      in if j \<ge> length p then None else Some (take j p, drop (Suc j) p))"

lemma bracket_end_shorter:
  "bracket_end p = Some (stuff, rest) \<Longrightarrow> length rest < Suc (length p)"
  by (auto simp: bracket_end_def Let_def split: if_splits)

text \<open>
  \<open>fnmatch.filter\<close> keeps a name when the regular expression translated from the pattern
  matches the whole name: \<open>*\<close> is any string, \<open>?\<close> any character (the expression is
  compiled with \<open>(?s)\<close>), an unclosed \<open>[\<close> stands for itself, every other character for
  itself.  The atomic groups of the translation accept the same names as this
  backtracking matcher, since each piece between two stars has a fixed length.
\<close>

function fnmatch :: "(string \<Rightarrow> char \<Rightarrow> bool) \<Rightarrow> string \<Rightarrow> string \<Rightarrow> bool" where
  "fnmatch cls [] name = (name = [])"
| "fnmatch cls (c # pat) [] = (c = CHR ''*'' \<and> fnmatch cls pat [])"
| "fnmatch cls (c # pat) (x # name) =
     (if c = CHR ''*'' then fnmatch cls pat (x # name) \<or> fnmatch cls (c # pat) name
      else if c = CHR ''?'' then fnmatch cls pat name
      else if c = CHR ''['' then
        (case bracket_end pat of
           None \<Rightarrow> x = CHR ''['' \<and> fnmatch cls pat name
         | Some (stuff, rest) \<Rightarrow> cls stuff x \<and> fnmatch cls rest name)
      else x = c \<and> fnmatch cls pat name)"
  by pat_completeness auto
termination
  by (relation "measure (\<lambda>(cls, pat, name). length pat + length name)")
     (auto dest: bracket_end_shorter)

definition has_magic :: "string \<Rightarrow> bool" where
  "has_magic s = (\<exists>c \<in> set s. c = CHR ''*'' \<or> c = CHR ''?'' \<or> c = CHR ''['')"

text \<open>\<open>path[0] == '.'\<close>; the names and patterns it is applied to are never empty.\<close>

definition ishidden :: "string \<Rightarrow> bool" where
  "ishidden path = (path \<noteq> [] \<and> hd path = CHR ''.'')"

definition isrecursive :: "string \<Rightarrow> bool" where
  "isrecursive pattern = (pattern = ''**'')"

text \<open>\<open>glob._join\<close>.\<close>

definition join_glob :: "string \<Rightarrow> string \<Rightarrow> string" where
  "join_glob dirname basename =
     (if dirname = [] \<or> basename = [] then (if dirname \<noteq> [] then dirname else basename)
      else join_py dirname basename)"

text \<open>
  \<open>glob._listdir\<close>: the names \<open>os.scandir\<close> yields (all of them, or the directories
  only), and nothing when the directory cannot be scanned.
\<close>

definition listdir :: "world \<Rightarrow> string \<Rightarrow> bool \<Rightarrow> string list" where
  "listdir w dirname dironly =
     (case os_stat w (if dirname \<noteq> [] then dirname else ''.'') of
        Some (Dir es) \<Rightarrow> map fst (filter (\<lambda>e. \<not> dironly \<or> is_dir (snd e)) es)
      | _ \<Rightarrow> [])"

definition glob1 :: "world \<Rightarrow> string \<Rightarrow> string \<Rightarrow> bool \<Rightarrow> string list" where
  "glob1 w dirname pattern dironly =
     (let names = listdir w dirname dironly;
          names = (if \<not> ishidden pattern then filter (\<lambda>x. \<not> ishidden x) names else names)
      in filter (fnmatch (re_class w) pattern) names)"

definition glob0 :: "world \<Rightarrow> string \<Rightarrow> string \<Rightarrow> bool \<Rightarrow> string list" where
  "glob0 w dirname basename dironly =
     (if basename \<noteq> [] then (if lexists w (join_glob dirname basename) then [basename] else [])
      else if isdir w dirname then [basename]
      else [])"

text \<open>
  \<open>glob._rlistdir\<close> below a directory node.  The source resolves the joined path again at
  every level; on a tree whose names are proper file names that is the child node.
\<close>

fun rlist :: "bool \<Rightarrow> node \<Rightarrow> string list" where
  "rlist dironly File = []"
| "rlist dironly (Dir es) =
     concat (map (\<lambda>e. if (\<not> dironly \<or> is_dir (snd e)) \<and> \<not> ishidden (fst e)
                       then fst e # map (join_glob (fst e)) (rlist dironly (snd e))
                       else []) es)"

definition rlistdir :: "world \<Rightarrow> string \<Rightarrow> bool \<Rightarrow> string list" where
  "rlistdir w dirname dironly =
     (case os_stat w (if dirname \<noteq> [] then dirname else ''.'') of
        Some n \<Rightarrow> rlist dironly n
      | None \<Rightarrow> [])"

definition glob2 :: "world \<Rightarrow> string \<Rightarrow> string \<Rightarrow> bool \<Rightarrow> string list" where
  "glob2 w dirname pattern dironly =
     (if dirname = [] \<or> isdir w dirname then [[]] else []) @ rlistdir w dirname dironly"

lemma rstrip_sep_prefix: "prefix (rstrip_sep s) s"
proof -
  have "rstrip_sep s @ rev (takeWhile (\<lambda>c. c = CHR ''/'') (rev s)) =
        rev (takeWhile (\<lambda>c. c = CHR ''/'') (rev s) @ dropWhile (\<lambda>c. c = CHR ''/'') (rev s))"
    by (simp only: rstrip_sep_def rev_append)
  also have "\<dots> = s"
    by simp
  finally show ?thesis
    by (metis prefixI)
qed

lemma split_py_head_prefix: "prefix (fst (split_py p)) p"
proof -
  have "prefix (rstrip_sep (take n p)) p" for n
    using rstrip_sep_prefix [of "take n p"] take_is_prefix [of n p]
    by (rule prefix_order.trans)
  then show ?thesis
    by (simp add: split_py_def Let_def take_is_prefix)
qed

lemma split_py_head_shorter:
  assumes "fst (split_py p) \<noteq> p"
  shows "length (fst (split_py p)) < length p"
proof -
  obtain zs where zs: "p = fst (split_py p) @ zs"
    using split_py_head_prefix [of p] by (auto simp: prefix_def)
  with assms have "zs \<noteq> []"
    by auto
  moreover have "length p = length (fst (split_py p)) + length zs"
    using arg_cong [OF zs, of length] by simp
  ultimately show ?thesis
    by simp
qed

text \<open>
  \<open>glob._iglob\<close> with \<open>root_dir = ''\<close>, \<open>dir_fd = None\<close>, \<open>recursive = True\<close> and
  \<open>include_hidden = False\<close>, as \<open>glob.glob(full_pattern, recursive=True)\<close> calls it.
\<close>

function iglob :: "world \<Rightarrow> string \<Rightarrow> bool \<Rightarrow> string list" where
  "iglob w pathname dironly =
     (let dirname = fst (split_py pathname); basename = snd (split_py pathname) in
      if \<not> has_magic pathname then
        (if basename \<noteq> [] then (if lexists w pathname then [pathname] else [])
         else if isdir w dirname then [pathname]
         else [])
      else if dirname = [] then
        (if isrecursive basename then glob2 w [] basename dironly
         else glob1 w [] basename dironly)
      else
        concat (map (\<lambda>d. map (join_py d)
                      ((if has_magic basename
                        then (if isrecursive basename then glob2 else glob1)
                        else glob0) w d basename dironly))
                 (if dirname \<noteq> pathname \<and> has_magic dirname
                  then iglob w dirname True
                  else [dirname])))"
  by pat_completeness auto
termination
  by (relation "measure (\<lambda>(w, pathname, dironly). length pathname)")
     (auto dest: split_py_head_shorter)

declare iglob.simps [simp del]

text \<open>\<open>glob.glob(pathname, recursive=True)\<close>: the empty string that \<open>**\<close> yields first is skipped.\<close>

definition glob :: "world \<Rightarrow> string \<Rightarrow> string list" where
  "glob w pathname =
     (let it = iglob w pathname False in
      if pathname = [] \<or> isrecursive (take 2 pathname)
      then (case it of [] \<Rightarrow> [] | s # rest \<Rightarrow> if s \<noteq> [] then s # rest else rest)
      else it)"

section \<open>The generator\<close>

text \<open>A list comprehension whose element expression may raise stops at the first error.\<close>

fun map_err :: "('a \<Rightarrow> error + 'b) \<Rightarrow> 'a list \<Rightarrow> error + 'b list" where
  "map_err f [] = Inr []"
| "map_err f (x # xs) =
     (case f x of
        Inl e \<Rightarrow> Inl e
      | Inr y \<Rightarrow> (case map_err f xs of Inl e \<Rightarrow> Inl e | Inr ys \<Rightarrow> Inr (y # ys)))"

definition find_sources :: "world \<Rightarrow> string \<Rightarrow> string \<Rightarrow> error + string list" where
  "find_sources w base_path pattern =
     (let full_pattern = join_py base_path pattern;
          files = glob w full_pattern
      in case map_err (\<lambda>f. case relpath w f of Inl e \<Rightarrow> Inl e
                                             | Inr r \<Rightarrow> Inr (replace CHR ''/'' bsl r)) files of
           Inl e \<Rightarrow> Inl e
         | Inr rel_files \<Rightarrow> Inr (sort rel_files))"

subsection \<open>The template\<close>

definition VCXPROJ_HEADER :: string where
  \<open>VCXPROJ_HEADER = concat
    [''<?xml version="1.0" encoding="utf-8"?>\<newline>'',
     ''<Project DefaultTargets="Build" xmlns="http://schemas.microsoft.com/developer/msbuild/2003">\<newline>'',
     ''  <ItemGroup Label="ProjectConfigurations">\<newline>'',
     ''    <ProjectConfiguration Include="Debug|x64">\<newline>'',
     ''      <Configuration>Debug</Configuration>\<newline>'',
     ''      <Platform>x64</Platform>\<newline>'',
     ''    </ProjectConfiguration>\<newline>'',
     ''    <ProjectConfiguration Include="Release|x64">\<newline>'',
     ''      <Configuration>Release</Configuration>\<newline>'',
     ''      <Platform>x64</Platform>\<newline>'',
     ''    </ProjectConfiguration>\<newline>'',
     ''  </ItemGroup>\<newline>'',
     ''  <PropertyGroup Label="Globals">\<newline>'',
     ''    <VCProjectVersion>16.0</VCProjectVersion>\<newline>'',
     ''    <ProjectGuid>{F7A8B1E3-9C4D-4E5F-8A6B-1D2E3F4A5B6C}</ProjectGuid>\<newline>'',
     ''    <Keyword>Win32Proj</Keyword>\<newline>'',
     ''    <RootNamespace>hlffi</RootNamespace>\<newline>'',
     ''    <WindowsTargetPlatformVersion>10.0</WindowsTargetPlatformVersion>\<newline>'',
     ''  </PropertyGroup>\<newline>'',
     ''  <Import Project="$(VCTargetsPath)'' @ [bsl] @ ''Microsoft.Cpp.Default.props" />\<newline>'',
     ''  <PropertyGroup Condition="'' @ [CHR 0x27] @ ''$(Configuration)|$(Platform)'' @ [CHR 0x27] @ ''=='' @ [CHR 0x27] @ ''Debug|x64'' @ [CHR 0x27] @ ''" Label="Configuration">\<newline>'',
     ''    <ConfigurationType>StaticLibrary</ConfigurationType>\<newline>'',
     ''    <UseDebugLibraries>true</UseDebugLibraries>\<newline>'',
     ''    <PlatformToolset>v143</PlatformToolset>\<newline>'',
     ''    <CharacterSet>Unicode</CharacterSet>\<newline>'',
     ''  </PropertyGroup>\<newline>'',
     ''  <PropertyGroup Condition="'' @ [CHR 0x27] @ ''$(Configuration)|$(Platform)'' @ [CHR 0x27] @ ''=='' @ [CHR 0x27] @ ''Release|x64'' @ [CHR 0x27] @ ''" Label="Configuration">\<newline>'',
     ''    <ConfigurationType>StaticLibrary</ConfigurationType>\<newline>'',
     ''    <UseDebugLibraries>false</UseDebugLibraries>\<newline>'',
     ''    <PlatformToolset>v143</PlatformToolset>\<newline>'',
     ''    <WholeProgramOptimization>true</WholeProgramOptimization>\<newline>'',
     ''    <CharacterSet>Unicode</CharacterSet>\<newline>'',
     ''  </PropertyGroup>\<newline>'',
     ''  <Import Project="$(VCTargetsPath)'' @ [bsl] @ ''Microsoft.Cpp.props" />\<newline>'',
     ''  <ImportGroup Label="ExtensionSettings">\<newline>'',
     ''  </ImportGroup>\<newline>'',
     ''  <ImportGroup Label="Shared">\<newline>'',
     ''  </ImportGroup>\<newline>'',
     ''  <ImportGroup Label="PropertySheets" Condition="'' @ [CHR 0x27] @ ''$(Configuration)|$(Platform)'' @ [CHR 0x27] @ ''=='' @ [CHR 0x27] @ ''Debug|x64'' @ [CHR 0x27] @ ''">\<newline>'',
     ''    <Import Project="$(UserRootDir)'' @ [bsl] @ ''Microsoft.Cpp.$(Platform).user.props" Condition="exists('' @ [CHR 0x27] @ ''$(UserRootDir)'' @ [bsl] @ ''Microsoft.Cpp.$(Platform).user.props'' @ [CHR 0x27] @ '')" Label="LocalAppDataPlatform" />\<newline>'',
     ''  </ImportGroup>\<newline>'',
     ''  <ImportGroup Label="PropertySheets" Condition="'' @ [CHR 0x27] @ ''$(Configuration)|$(Platform)'' @ [CHR 0x27] @ ''=='' @ [CHR 0x27] @ ''Release|x64'' @ [CHR 0x27] @ ''">\<newline>'',
     ''    <Import Project="$(UserRootDir)'' @ [bsl] @ ''Microsoft.Cpp.$(Platform).user.props" Condition="exists('' @ [CHR 0x27] @ ''$(UserRootDir)'' @ [bsl] @ ''Microsoft.Cpp.$(Platform).user.props'' @ [CHR 0x27] @ '')" Label="LocalAppDataPlatform" />\<newline>'',
     ''  </ImportGroup>\<newline>'',
     ''  <PropertyGroup Label="UserMacros" />\<newline>'',
     ''  <PropertyGroup Condition="'' @ [CHR 0x27] @ ''$(Configuration)|$(Platform)'' @ [CHR 0x27] @ ''=='' @ [CHR 0x27] @ ''Debug|x64'' @ [CHR 0x27] @ ''">\<newline>'',
     ''    <LinkIncremental>true</LinkIncremental>\<newline>'',
     ''    <OutDir>$(SolutionDir)bin'' @ [bsl] @ ''$(Platform)'' @ [bsl] @ ''$(Configuration)'' @ [bsl] @ ''</OutDir>\<newline>'',
     ''    <IntDir>$(SolutionDir)obj'' @ [bsl] @ ''$(ProjectName)'' @ [bsl] @ ''$(Platform)'' @ [bsl] @ ''$(Configuration)'' @ [bsl] @ ''</IntDir>\<newline>'',
     ''  </PropertyGroup>\<newline>'',
     ''  <PropertyGroup Condition="'' @ [CHR 0x27] @ ''$(Configuration)|$(Platform)'' @ [CHR 0x27] @ ''=='' @ [CHR 0x27] @ ''Release|x64'' @ [CHR 0x27] @ ''">\<newline>'',
     ''    <LinkIncremental>false</LinkIncremental>\<newline>'',
     ''    <OutDir>$(SolutionDir)bin'' @ [bsl] @ ''$(Platform)'' @ [bsl] @ ''$(Configuration)'' @ [bsl] @ ''</OutDir>\<newline>'',
     ''    <IntDir>$(SolutionDir)obj'' @ [bsl] @ ''$(ProjectName)'' @ [bsl] @ ''$(Platform)'' @ [bsl] @ ''$(Configuration)'' @ [bsl] @ ''</IntDir>\<newline>'',
     ''  </PropertyGroup>\<newline>'',
     ''  <ItemDefinitionGroup Condition="'' @ [CHR 0x27] @ ''$(Configuration)|$(Platform)'' @ [CHR 0x27] @ ''=='' @ [CHR 0x27] @ ''Debug|x64'' @ [CHR 0x27] @ ''">\<newline>'',
     ''    <ClCompile>\<newline>'',
     ''      <PrecompiledHeader>NotUsing</PrecompiledHeader>\<newline>'',
     ''      <WarningLevel>Level3</WarningLevel>\<newline>'',
     ''      <SDLCheck>true</SDLCheck>\<newline>'',
     ''      <PreprocessorDefinitions>_DEBUG;_LIB;LIBHL_EXPORTS;HAVE_CONFIG_H;PCRE2_CODE_UNIT_WIDTH=16;MBEDTLS_USER_CONFIG_FILE=&lt;mbedtls_user_config.h&gt;;%(PreprocessorDefinitions)</PreprocessorDefinitions>\<newline>'',
     ''      <ConformanceMode>false</ConformanceMode>\<newline>'',
     ''      <AdditionalIncludeDirectories>$(ProjectDir)include;$(ProjectDir)vendor'' @ [bsl] @ ''hashlink'' @ [bsl] @ ''src;$(ProjectDir)vendor'' @ [bsl] @ ''hashlink'' @ [bsl] @ ''include'' @ [bsl] @ ''pcre;$(ProjectDir)vendor'' @ [bsl] @ ''hashlink'' @ [bsl] @ ''include'' @ [bsl] @ ''libuv'' @ [bsl] @ ''include;$(ProjectDir)vendor'' @ [bsl] @ ''hashlink'' @ [bsl] @ ''include'' @ [bsl] @ ''libuv'' @ [bsl] @ ''src;$(ProjectDir)vendor'' @ [bsl] @ ''hashlink'' @ [bsl] @ ''include'' @ [bsl] @ ''mbedtls'' @ [bsl] @ ''include;$(ProjectDir)vendor'' @ [bsl] @ ''hashlink'' @ [bsl] @ ''libs'' @ [bsl] @ ''ssl;%(AdditionalIncludeDirectories)</AdditionalIncludeDirectories>\<newline>'',
     ''      <LanguageStandard>stdcpp17</LanguageStandard>\<newline>'',
     ''      <MultiProcessorCompilation>true</MultiProcessorCompilation>\<newline>'',
     ''      <TreatWarningAsError>false</TreatWarningAsError>\<newline>'',
     ''      <DisableSpecificWarnings>4244;4267;4456;4459;4127;4100;4201;4706;%(DisableSpecificWarnings)</DisableSpecificWarnings>\<newline>'',
     ''    </ClCompile>\<newline>'',
     ''    <Link>\<newline>'',
     ''      <SubSystem>Console</SubSystem>\<newline>'',
     ''      <GenerateDebugInformation>true</GenerateDebugInformation>\<newline>'',
     ''    </Link>\<newline>'',
     ''    <Lib>\<newline>'',
     ''      <AdditionalDependencies>ws2_32.lib;advapi32.lib;psapi.lib;user32.lib;iphlpapi.lib;userenv.lib;winmm.lib;%(AdditionalDependencies)</AdditionalDependencies>\<newline>'',
     ''    </Lib>\<newline>'',
     ''  </ItemDefinitionGroup>\<newline>'',
     ''  <ItemDefinitionGroup Condition="'' @ [CHR 0x27] @ ''$(Configuration)|$(Platform)'' @ [CHR 0x27] @ ''=='' @ [CHR 0x27] @ ''Release|x64'' @ [CHR 0x27] @ ''">\<newline>'',
     ''    <ClCompile>\<newline>'',
     ''      <PrecompiledHeader>NotUsing</PrecompiledHeader>\<newline>'',
     ''      <WarningLevel>Level3</WarningLevel>\<newline>'',
     ''      <FunctionLevelLinking>true</FunctionLevelLinking>\<newline>'',
     ''      <IntrinsicFunctions>true</IntrinsicFunctions>\<newline>'',
     ''      <SDLCheck>true</SDLCheck>\<newline>'',
     ''      <PreprocessorDefinitions>NDEBUG;_LIB;LIBHL_EXPORTS;HAVE_CONFIG_H;PCRE2_CODE_UNIT_WIDTH=16;MBEDTLS_USER_CONFIG_FILE=&lt;mbedtls_user_config.h&gt;;%(PreprocessorDefinitions)</PreprocessorDefinitions>\<newline>'',
     ''      <ConformanceMode>false</ConformanceMode>\<newline>'',
     ''      <AdditionalIncludeDirectories>$(ProjectDir)include;$(ProjectDir)vendor'' @ [bsl] @ ''hashlink'' @ [bsl] @ ''src;$(ProjectDir)vendor'' @ [bsl] @ ''hashlink'' @ [bsl] @ ''include'' @ [bsl] @ ''pcre;$(ProjectDir)vendor'' @ [bsl] @ ''hashlink'' @ [bsl] @ ''include'' @ [bsl] @ ''libuv'' @ [bsl] @ ''include;$(ProjectDir)vendor'' @ [bsl] @ ''hashlink'' @ [bsl] @ ''include'' @ [bsl] @ ''libuv'' @ [bsl] @ ''src;$(ProjectDir)vendor'' @ [bsl] @ ''hashlink'' @ [bsl] @ ''include'' @ [bsl] @ ''mbedtls'' @ [bsl] @ ''include;$(ProjectDir)vendor'' @ [bsl] @ ''hashlink'' @ [bsl] @ ''libs'' @ [bsl] @ ''ssl;%(AdditionalIncludeDirectories)</AdditionalIncludeDirectories>\<newline>'',
     ''      <LanguageStandard>stdcpp17</LanguageStandard>\<newline>'',
     ''      <MultiProcessorCompilation>true</MultiProcessorCompilation>\<newline>'',
     ''      <TreatWarningAsError>false</TreatWarningAsError>\<newline>'',
     ''      <DisableSpecificWarnings>4244;4267;4456;4459;4127;4100;4201;4706;%(DisableSpecificWarnings)</DisableSpecificWarnings>\<newline>'',
     ''    </ClCompile>\<newline>'',
     ''    <Link>\<newline>'',
     ''      <SubSystem>Console</SubSystem>\<newline>'',
     ''      <EnableCOMDATFolding>true</EnableCOMDATFolding>\<newline>'',
     ''      <OptimizeReferences>true</OptimizeReferences>\<newline>'',
     ''      <GenerateDebugInformation>true</GenerateDebugInformation>\<newline>'',
     ''    </Link>\<newline>'',
     ''    <Lib>\<newline>'',
     ''      <AdditionalDependencies>ws2_32.lib;advapi32.lib;psapi.lib;user32.lib;iphlpapi.lib;userenv.lib;winmm.lib;%(AdditionalDependencies)</AdditionalDependencies>\<newline>'',
     ''    </Lib>\<newline>'',
     ''  </ItemDefinitionGroup>\<newline>'',
     ''  <ItemGroup>\<newline>'',
     ''    <ClInclude Include="include'' @ [bsl] @ ''hlffi.h" />\<newline>'',
     ''  </ItemGroup>\<newline>'',
     ''  <ItemGroup>\<newline>'']\<close>

definition VCXPROJ_FOOTER :: string where
  \<open>VCXPROJ_FOOTER = concat
    [''  </ItemGroup>\<newline>'',
     ''  <Import Project="$(VCTargetsPath)'' @ [bsl] @ ''Microsoft.Cpp.targets" />\<newline>'',
     ''  <ImportGroup Label="ExtensionTargets">\<newline>'',
     ''  </ImportGroup>\<newline>'',
     ''</Project>\<newline>'']\<close>

subsection \<open>\<open>main\<close>\<close>

text \<open>Sequencing of statements that may raise.\<close>

definition then_err :: "error + 'a \<Rightarrow> ('a \<Rightarrow> error + 'b) \<Rightarrow> error + 'b" where
  "then_err r f = (case r of Inl e \<Rightarrow> Inl e | Inr x \<Rightarrow> f x)"

text \<open>
  The first part of \<open>main\<close>: the list \<open>sources\<close> of named groups, in the order of
  the \<open>append\<close> calls.
\<close>

definition hlffi_wrapper_files :: "string list" where
  "hlffi_wrapper_files =
    [''src'' @ [bsl] @ ''hlffi_core.c'',
     ''src'' @ [bsl] @ ''hlffi_events.c'',
     ''src'' @ [bsl] @ ''hlffi_integration.c'',
     ''src'' @ [bsl] @ ''hlffi_lifecycle.c'',
     ''src'' @ [bsl] @ ''hlffi_reload.c'',
     ''src'' @ [bsl] @ ''hlffi_threading.c'']"

definition vm_core_files :: "string list" where
  "vm_core_files =
    [''vendor'' @ [bsl] @ ''hashlink'' @ [bsl] @ ''src'' @ [bsl] @ ''allocator.c'',
     ''vendor'' @ [bsl] @ ''hashlink'' @ [bsl] @ ''src'' @ [bsl] @ ''code.c'',
     ''vendor'' @ [bsl] @ ''hashlink'' @ [bsl] @ ''src'' @ [bsl] @ ''module.c'',
     ''vendor'' @ [bsl] @ ''hashlink'' @ [bsl] @ ''src'' @ [bsl] @ ''jit.c'',
     ''vendor'' @ [bsl] @ ''hashlink'' @ [bsl] @ ''src'' @ [bsl] @ ''debugger.c'',
     ''vendor'' @ [bsl] @ ''hashlink'' @ [bsl] @ ''src'' @ [bsl] @ ''profile.c'',
     ''vendor'' @ [bsl] @ ''hashlink'' @ [bsl] @ ''src'' @ [bsl] @ ''gc.c'']"

definition plugin_wrapper_files :: "string list" where
  "plugin_wrapper_files =
    [''vendor'' @ [bsl] @ ''hashlink'' @ [bsl] @ ''libs'' @ [bsl] @ ''uv'' @ [bsl] @ ''uv.c'',
     ''vendor'' @ [bsl] @ ''hashlink'' @ [bsl] @ ''libs'' @ [bsl] @ ''ssl'' @ [bsl] @ ''ssl.c'']"

definition build_sources :: "world \<Rightarrow> error + (string \<times> string list) list" where
  "build_sources w =
     (let sources = [];
          sources = sources @ [(''HLFFI wrapper code'', hlffi_wrapper_files)];
          sources = sources @ [(''HashLink VM core'', vm_core_files)]
      in
      then_err (find_sources w ''vendor/hashlink/src/std'' ''*.c'') (\<lambda>stdlib_sources.
      let sources = sources @ [(''HashLink standard library'', stdlib_sources)] in
      then_err (find_sources w ''vendor/hashlink/include/pcre'' ''*.c'') (\<lambda>pcre_sources.
      let sources = sources @ [(''PCRE2 regex library'', pcre_sources)];
          sources = sources @ [(''Plugin wrappers'', plugin_wrapper_files)] in
      then_err (find_sources w ''vendor/hashlink/include/libuv/src'' ''*.c'') (\<lambda>uv1.
      then_err (find_sources w ''vendor/hashlink/include/libuv/src/win'' ''*.c'') (\<lambda>uv2.
      let uv_sources = uv1 @ uv2;
          sources = sources @ [(''libuv sources (embedded)'', uv_sources)] in
      then_err (find_sources w ''vendor/hashlink/include/mbedtls/library'' ''*.c'') (\<lambda>mbedtls_sources.
      let sources = sources @ [(''mbedtls sources (embedded - TLS/SSL support)'', mbedtls_sources)]
      in Inr sources))))))"

text \<open>The two lines the rendering loop appends, and the loop itself.\<close>

definition section_line :: "string \<Rightarrow> string" where
  \<open>section_line section_name = ''    <!-- '' @ section_name @ '' -->\<newline>''\<close>

definition entry_line :: "string \<Rightarrow> string" where
  \<open>entry_line f = ''    <ClCompile Include="'' @ f @ ''" />\<newline>''\<close>

definition render :: "(string \<times> string list) list \<Rightarrow> string" where
  "render sources =
     foldl (\<lambda>vcxproj (section_name, files).
              foldl (\<lambda>vcxproj f. vcxproj @ entry_line f)
                    (vcxproj @ section_line section_name) files
              @ ''\<newline>'')
           VCXPROJ_HEADER sources
     @ VCXPROJ_FOOTER"

text \<open>
  \<open>open(name, 'w', newline='\r\n')\<close> followed by \<open>f.write(text)\<close>: the file is truncated
  and every \<open>\n\<close> written is translated to \<open>\r\n\<close>.  The model covers a run in which
  the file can be opened for writing.
\<close>

definition translate_newlines :: "string \<Rightarrow> string" where
  "translate_newlines text = concat (map (\<lambda>c. if c = LF then [CR, LF] else [c]) text)"







text \<open>The text the variable \<open>vcxproj\<close> holds when \<open>main\<close> reaches the write.\<close>

definition vcxproj_of :: "world \<Rightarrow> error + string" where
  "vcxproj_of w = then_err (build_sources w) (\<lambda>sources. Inr (render sources))"

section \<open>Properties of the output\<close>

subsection \<open>Balanced markup\<close>









subsection \<open>Include entries\<close>

text \<open>
  An include entry is a line of the document that starts as \<open>entry_line\<close> does.  The
  counter reads the text once: at the start of a line it holds what is left of
  \<open>entry_prefix\<close> to compare, and \<open>None\<close> once the line is decided.
\<close>

definition entry_prefix :: string where
  \<open>entry_prefix = ''    <ClCompile Include="''\<close>

fun count_step :: "string option \<times> nat \<Rightarrow> char \<Rightarrow> string option \<times> nat" where
  "count_step (m, k) c =
     (if c = LF then (Some entry_prefix, k)
      else (case m of
              None \<Rightarrow> (None, k)
            | Some [] \<Rightarrow> (None, k)
            | Some (p # ps) \<Rightarrow>
                if c = p then (if ps = [] then (None, Suc k) else (Some ps, k))
                else (None, k)))"


section \<open>Worlds for the examples\<close>

text \<open>
  A project in \<open>/work\<close>: under \<open>vendor/hashlink\<close>, the directory \<open>src/std\<close> holds \<open>b.c\<close>,
  \<open>a.c\<close> and a subdirectory \<open>sub\<close> with \<open>n.c\<close>, and \<open>include/libuv/src\<close> holds \<open>x.c\<close>
  and a subdirectory \<open>win\<close> with \<open>a.c\<close>.
\<close>

definition demo_tree :: node where
  "demo_tree =
     Dir [(''work'', Dir [(''vendor'', Dir [(''hashlink'', Dir
       [(''src'', Dir [(''std'', Dir [(''b.c'', File), (''a.c'', File),
                                      (''sub'', Dir [(''n.c'', File)])])]),
        (''include'', Dir [(''libuv'', Dir [(''src'', Dir
                            [(''x.c'', File), (''win'', Dir [(''a.c'', File)])])])])])])])]"

definition demo_world :: world where
  "demo_world =
     \<lparr>root = demo_tree, cwd = ''/work'', re_class = (\<lambda>stuff c. False),
      written = Map.empty, stdout = []\<rparr>"


text \<open>
  The project of \<open>demo_world\<close> with the entries of its directories listed in another
  order, and another class function.
\<close>

definition reordered_world :: world where
  "reordered_world =
     \<lparr>root =
        Dir [(''work'', Dir [(''vendor'', Dir [(''hashlink'', Dir
          [(''include'', Dir [(''libuv'', Dir [(''src'', Dir
                               [(''win'', Dir [(''a.c'', File)]), (''x.c'', File)])])]),
           (''src'', Dir [(''std'', Dir [(''sub'', Dir [(''n.c'', File)]),
                                         (''a.c'', File), (''b.c'', File)])])])])])],
      cwd = ''/work'', re_class = (\<lambda>stuff c. True), written = Map.empty, stdout = []\<rparr>"


section \<open>Notions the theorems are stated with\<close>

text \<open>
  The names the pattern \<open>*.c\<close> selects in one directory: the entries \<open>os.scandir\<close>
  lists there, files and directories alike, whose name ends in \<open>.c\<close> and does not start
  with a dot.
\<close>

definition matching :: "world \<Rightarrow> string \<Rightarrow> string list" where
  "matching w dirname =
     filter (\<lambda>n. \<not> ishidden n \<and> suffix ''.c'' n) (listdir w dirname False)"

text \<open>The path \<open>find_sources\<close> returns for the entry \<open>n\<close> of the directory \<open>dirname\<close>.\<close>

definition out_path :: "world \<Rightarrow> string \<Rightarrow> string \<Rightarrow> string" where
  "out_path w dirname n = replace CHR ''/'' bsl (relpath_body w (join_py dirname n))"

definition discovered :: "world \<Rightarrow> string \<Rightarrow> string list" where
  "discovered w dirname = sort (map (out_path w dirname) (matching w dirname))"

text \<open>A base path that names one directory literally.\<close>

definition literal_dir :: "string \<Rightarrow> bool" where
  "literal_dir d = (d \<noteq> [] \<and> last d \<noteq> CHR ''/'' \<and> \<not> has_magic d)"

text \<open>The five directories \<open>main\<close> searches.\<close>

definition search_dirs :: "string list" where
  "search_dirs =
     [''vendor/hashlink/src/std'',
      ''vendor/hashlink/include/pcre'',
      ''vendor/hashlink/include/libuv/src'',
      ''vendor/hashlink/include/libuv/src/win'',
      ''vendor/hashlink/include/mbedtls/library'']"








text \<open>The counter of entry lines.\<close>

definition count_scan :: "string option \<times> nat \<Rightarrow> string \<Rightarrow> string option \<times> nat" where
  "count_scan s text = foldl count_step s text"

text \<open>What is left to compare still holds the \<open><\<close> of the prefix.\<close>

definition undecided :: "string option \<Rightarrow> bool" where
  "undecided m = (case m of None \<Rightarrow> True | Some r \<Rightarrow> CHR ''<'' \<in> set r)"

section \<open>Facts about the library functions\<close>

lemma split_on_no_sep: "\<forall>l \<in> set (split_on d s). d \<notin> set l"
  by (induction s) (auto split: list.splits)

lemma join_py_not_abs:
  "a \<noteq> [] \<Longrightarrow> \<not> isabs a \<Longrightarrow> \<not> isabs b \<Longrightarrow> join_py a b \<noteq> [] \<and> \<not> isabs (join_py a b)"
  by (auto simp: join_py_def isabs_def)

lemma foldl_join_py_not_abs:
  "a \<noteq> [] \<Longrightarrow> \<not> isabs a \<Longrightarrow> \<forall>b \<in> set bs. \<not> isabs b \<Longrightarrow> \<not> isabs (foldl join_py a bs)"
proof (induction bs arbitrary: a)
  case Nil
  then show ?case by simp
next
  case (Cons b bs)
  then have "join_py a b \<noteq> [] \<and> \<not> isabs (join_py a b)"
    by (intro join_py_not_abs) auto
  with Cons show ?case by simp
qed

text \<open>What \<open>relpath\<close> returns never starts with a slash.\<close>

lemma relpath_body_relative: "\<not> isabs (relpath_body w path)"
proof -
  define start_list where
    "start_list = filter (\<lambda>x. x \<noteq> []) (split_on CHR ''/'' (abspath w ''.''))"
  define path_list where
    "path_list = filter (\<lambda>x. x \<noteq> []) (split_on CHR ''/'' (abspath w path))"
  define rel_list where
    "rel_list = replicate (length start_list - length (commonprefix start_list path_list)) ''..''
                @ drop (length (commonprefix start_list path_list)) path_list"
  have body: "relpath_body w path =
      (if rel_list = [] then ''.'' else foldl join_py (hd rel_list) (tl rel_list))"
    by (simp add: relpath_body_def Let_def rel_list_def start_list_def path_list_def)
  have comps: "\<forall>c \<in> set path_list. c \<noteq> [] \<and> \<not> isabs c"
    using split_on_no_sep [of "CHR ''/''" "abspath w path"]
    by (auto simp: path_list_def isabs_def dest: hd_in_set)
  have "\<forall>c \<in> set rel_list. c \<noteq> [] \<and> \<not> isabs c"
    using comps by (auto simp: rel_list_def isabs_def dest: in_set_dropD)
  then have "rel_list \<noteq> [] \<Longrightarrow> \<not> isabs (foldl join_py (hd rel_list) (tl rel_list))"
    by (intro foldl_join_py_not_abs) (auto dest: list.set_sel)
  then show ?thesis
    by (auto simp: body isabs_def)
qed

lemma replace_no_old: "old \<noteq> new \<Longrightarrow> old \<notin> set (replace old new s)"
  by (auto simp: replace_def)

lemma map_err_Inr:
  "map_err f xs = Inr ys \<Longrightarrow> length ys = length xs \<and> (\<forall>i < length xs. f (xs ! i) = Inr (ys ! i))"
proof (induction xs arbitrary: ys)
  case Nil
  then show ?case by simp
next
  case (Cons x xs)
  then show ?case
    by (auto split: sum.splits simp: nth_Cons split: nat.splits)
qed

lemma map_err_total:
  "\<forall>x \<in> set xs. f x = Inr (g x) \<Longrightarrow> map_err f xs = Inr (map g xs)"
  by (induction xs) auto

text \<open>The result of \<open>find_sources\<close> in terms of what \<open>glob\<close> returned.\<close>

lemma find_sources_Inr:
  assumes "find_sources w base_path pattern = Inr xs"
  shows "xs = sort (map (\<lambda>f. replace CHR ''/'' bsl (relpath_body w f))
                        (glob w (join_py base_path pattern)))"
proof -
  let ?fs = "glob w (join_py base_path pattern)"
  let ?f = "\<lambda>f. case relpath w f of Inl e \<Rightarrow> Inl e | Inr r \<Rightarrow> Inr (replace CHR ''/'' bsl r)"
  obtain ys where ys: "map_err ?f ?fs = Inr ys" and xs: "xs = sort ys"
    using assms by (auto simp: find_sources_def Let_def split: sum.splits)
  have "\<forall>i < length ?fs. ys ! i = replace CHR ''/'' bsl (relpath_body w (?fs ! i))"
    using map_err_Inr [OF ys] by (auto simp: relpath_def split: if_splits)
  moreover have "length ys = length ?fs"
    using map_err_Inr [OF ys] by simp
  ultimately have "ys = map (\<lambda>f. replace CHR ''/'' bsl (relpath_body w f)) ?fs"
    by (intro nth_equalityI) auto
  with xs show ?thesis by simp
qed

lemma find_sources_total:
  assumes "[] \<notin> set (glob w (join_py base_path pattern))"
  shows "find_sources w base_path pattern =
         Inr (sort (map (\<lambda>f. replace CHR ''/'' bsl (relpath_body w f))
                        (glob w (join_py base_path pattern))))"
proof -
  have "map_err (\<lambda>f. case relpath w f of Inl e \<Rightarrow> Inl e | Inr r \<Rightarrow> Inr (replace CHR ''/'' bsl r))
          (glob w (join_py base_path pattern)) =
        Inr (map (\<lambda>f. replace CHR ''/'' bsl (relpath_body w f)) (glob w (join_py base_path pattern)))"
    using assms by (intro map_err_total) (auto simp: relpath_def)
  then show ?thesis
    by (simp add: find_sources_def Let_def)
qed

section \<open>C3: what \<open>find_sources\<close> returns\<close>

text \<open>
  Claim C3.  Whatever the base path and the pattern, the list \<open>find_sources\<close> returns is
  sorted, and each of its elements is the relative form (\<open>relpath\<close> against the working
  directory, which never starts with a slash) of a path \<open>glob\<close> returned, with every
  forward slash replaced by a backslash, so that no forward slash is left.
\<close>

theorem find_sources_sorted_relative_backslash:
  assumes "find_sources w base_path pattern = Inr xs"
  shows "sorted xs \<and>
         (\<forall>x \<in> set xs. CHR ''/'' \<notin> set x \<and>
            (\<exists>f \<in> set (glob w (join_py base_path pattern)).
               x = replace CHR ''/'' bsl (relpath_body w f) \<and> \<not> isabs (relpath_body w f)))"
  using find_sources_Inr [OF assms] replace_no_old [of "CHR ''/''" bsl] relpath_body_relative [of w]
  by auto

theorem find_sources_sorted_relative_backslash_witness:
  "find_sources demo_world ''vendor/hashlink/src/std'' ''*.c'' =
     Inr [''vendor'' @ [bsl] @ ''hashlink'' @ [bsl] @ ''src'' @ [bsl] @ ''std'' @ [bsl] @ ''a.c'',
          ''vendor'' @ [bsl] @ ''hashlink'' @ [bsl] @ ''src'' @ [bsl] @ ''std'' @ [bsl] @ ''b.c''] \<and>
   sorted [''vendor'' @ [bsl] @ ''hashlink'' @ [bsl] @ ''src'' @ [bsl] @ ''std'' @ [bsl] @ ''a.c'',
           ''vendor'' @ [bsl] @ ''hashlink'' @ [bsl] @ ''src'' @ [bsl] @ ''std'' @ [bsl] @ ''b.c'']"
proof -
  have h: "find_sources demo_world ''vendor/hashlink/src/std'' ''*.c'' =
     Inr [''vendor'' @ [bsl] @ ''hashlink'' @ [bsl] @ ''src'' @ [bsl] @ ''std'' @ [bsl] @ ''a.c'',
          ''vendor'' @ [bsl] @ ''hashlink'' @ [bsl] @ ''src'' @ [bsl] @ ''std'' @ [bsl] @ ''b.c'']"
    by code_simp
  show ?thesis
    using h find_sources_sorted_relative_backslash [OF h] by blast
qed

section \<open>Discovery with the pattern \<open>*.c\<close>\<close>

lemma fnmatch_dot_c: "fnmatch cls ''.c'' n = (n = ''.c'')"
  by (cases n; cases "tl n"; cases "tl (tl n)") auto

lemma fnmatch_star_c: "fnmatch cls ''*.c'' n = suffix ''.c'' n"
proof (induction n)
  case Nil
  then show ?case by simp
next
  case (Cons x n)
  have "fnmatch cls ''*.c'' (x # n) = (fnmatch cls ''.c'' (x # n) \<or> fnmatch cls ''*.c'' n)"
    by simp
  then show ?case
    using Cons by (simp only: fnmatch_dot_c suffix_Cons) auto
qed

lemma join_py_star_c: "literal_dir d \<Longrightarrow> join_py d ''*.c'' = d @ ''/*.c''"
  by (simp add: join_py_def isabs_def literal_dir_def)

lemma split_py_star_c:
  assumes "literal_dir d"
  shows "split_py (d @ ''/*.c'') = (d, ''*.c'')"
proof -
  have d: "d \<noteq> []" "last d \<noteq> CHR ''/''"
    using assms by (auto simp: literal_dir_def)
  have r: "rstrip_sep (d @ ''/'') = d"
    using d by (cases "rev d") (auto simp: rstrip_sep_def)
  have e: "\<exists>c \<in> set d. c \<noteq> CHR ''/''"
    using d by (metis last_in_set)
  show ?thesis
    using r e by (simp add: split_py_def Let_def)
qed

lemma glob1_star_c: "glob1 w d ''*.c'' False = matching w d"
  by (simp add: glob1_def matching_def ishidden_def fnmatch_star_c Let_def conj_commute)

lemma iglob_star_c:
  assumes "literal_dir d"
  shows "iglob w (d @ ''/*.c'') dironly = map (join_py d) (glob1 w d ''*.c'' dironly)"
proof -
  have m: "has_magic (d @ ''/*.c'')" "has_magic ''*.c''" "\<not> isrecursive ''*.c''"
    by (auto simp: has_magic_def isrecursive_def)
  have d: "d \<noteq> []" "\<not> has_magic d" "d \<noteq> d @ ''/*.c''"
    using assms by (auto simp: literal_dir_def)
  show ?thesis
    by (subst iglob.simps) (simp add: split_py_star_c [OF assms] m d Let_def)
qed

lemma glob_star_c:
  assumes "literal_dir d"
  shows "glob w (join_py d ''*.c'') = map (join_py d) (matching w d)"
proof -
  have "hd d \<in> set d"
    using assms by (simp add: literal_dir_def)
  then have "hd d \<noteq> CHR ''*''"
    using assms by (auto simp: literal_dir_def has_magic_def)
  then have "take 2 (d @ ''/*.c'') \<noteq> ''**''"
    using assms by (cases d) (auto simp: literal_dir_def)
  then show ?thesis
    by (simp add: glob_def join_py_star_c [OF assms] iglob_star_c [OF assms] glob1_star_c
        isrecursive_def Let_def)
qed

lemma join_py_nonempty: "d \<noteq> [] \<Longrightarrow> [] \<notin> join_py d ` S"
  by (auto simp: join_py_def isabs_def)

lemma find_sources_star_c:
  assumes "literal_dir d"
  shows "find_sources w d ''*.c'' = Inr (discovered w d)"
proof -
  have "[] \<notin> set (glob w (join_py d ''*.c''))"
    using assms join_py_nonempty [of d] by (simp add: glob_star_c literal_dir_def)
  from find_sources_total [OF this] show ?thesis
    by (simp add: glob_star_c [OF assms] discovered_def out_path_def [abs_def] comp_def)
qed

lemma search_dirs_literal: "\<forall>d \<in> set search_dirs. literal_dir d"
  by (simp add: search_dirs_def literal_dir_def has_magic_def)

text \<open>The groups \<open>main\<close> assembles, for every world: no call of \<open>find_sources\<close> raises.\<close>

lemma build_sources_eq:
  "build_sources w = Inr
     [(''HLFFI wrapper code'', hlffi_wrapper_files),
      (''HashLink VM core'', vm_core_files),
      (''HashLink standard library'', discovered w ''vendor/hashlink/src/std''),
      (''PCRE2 regex library'', discovered w ''vendor/hashlink/include/pcre''),
      (''Plugin wrappers'', plugin_wrapper_files),
      (''libuv sources (embedded)'',
         discovered w ''vendor/hashlink/include/libuv/src'' @
         discovered w ''vendor/hashlink/include/libuv/src/win''),
      (''mbedtls sources (embedded - TLS/SSL support)'',
         discovered w ''vendor/hashlink/include/mbedtls/library'')]"
proof -
  have l: "literal_dir ''vendor/hashlink/src/std''"
      "literal_dir ''vendor/hashlink/include/pcre''"
      "literal_dir ''vendor/hashlink/include/libuv/src''"
      "literal_dir ''vendor/hashlink/include/libuv/src/win''"
      "literal_dir ''vendor/hashlink/include/mbedtls/library''"
    using search_dirs_literal by (simp_all add: search_dirs_def)
  show ?thesis
    by (simp add: build_sources_def then_err_def Let_def l [THEN find_sources_star_c])
qed

section \<open>The rendering loop and \<open>main\<close>\<close>










section \<open>C4: an absent base directory\<close>



section \<open>C1: the search is not recursive\<close>

text \<open>
  Claim C1 says that \<open>find_sources\<close> returns the matching files of the subdirectories of
  the base path too.  In \<open>demo_world\<close> the file \<open>vendor/hashlink/src/std/sub/n.c\<close> exists
  and its name matches \<open>*.c\<close>, but the search of \<open>vendor/hashlink/src/std\<close> returns
  \<open>a.c\<close> and \<open>b.c\<close> only.
\<close>

theorem nested_match_not_returned:
  "lexists demo_world ''vendor/hashlink/src/std/sub/n.c'' \<and>
   fnmatch (re_class demo_world) ''*.c'' ''n.c'' \<and>
   find_sources demo_world ''vendor/hashlink/src/std'' ''*.c'' =
     Inr [''vendor'' @ [bsl] @ ''hashlink'' @ [bsl] @ ''src'' @ [bsl] @ ''std'' @ [bsl] @ ''a.c'',
          ''vendor'' @ [bsl] @ ''hashlink'' @ [bsl] @ ''src'' @ [bsl] @ ''std'' @ [bsl] @ ''b.c'']"
  by code_simp

text \<open>
  Claim C1 as amended.  With the pattern \<open>*.c\<close> and a base path that names a directory,
  \<open>find_sources\<close> returns the entries of that directory itself whose name ends in \<open>.c\<close>
  and does not start with a dot, each as \<open>out_path\<close> writes it, sorted; nothing below a
  subdirectory is returned, and the result is empty when the base path is not a
  directory.
\<close>

theorem star_c_returns_direct_children:
  assumes "literal_dir d"
  shows "find_sources w d ''*.c'' =
         Inr (sort (map (out_path w d)
                (filter (\<lambda>n. \<not> ishidden n \<and> suffix ''.c'' n)
                   (case os_stat w d of Some (Dir es) \<Rightarrow> map fst es | _ \<Rightarrow> []))))"
proof -
  have "d \<noteq> []"
    using assms by (simp add: literal_dir_def)
  then have "listdir w d False = (case os_stat w d of Some (Dir es) \<Rightarrow> map fst es | _ \<Rightarrow> [])"
    by (simp add: listdir_def split: option.splits node.splits)
  then show ?thesis
    by (simp add: find_sources_star_c [OF assms] discovered_def matching_def)
qed

theorem star_c_returns_direct_children_witness:
  "literal_dir ''vendor/hashlink/src/std'' \<and>
   os_stat demo_world ''vendor/hashlink/src/std'' =
     Some (Dir [(''b.c'', File), (''a.c'', File), (''sub'', Dir [(''n.c'', File)])]) \<and>
   find_sources demo_world ''vendor/hashlink/src/std'' ''*.c'' =
     Inr (sort (map (out_path demo_world ''vendor/hashlink/src/std'') [''b.c'', ''a.c'']))"
proof -
  have l: "literal_dir ''vendor/hashlink/src/std''"
    by (simp add: literal_dir_def has_magic_def)
  have s: "os_stat demo_world ''vendor/hashlink/src/std'' =
     Some (Dir [(''b.c'', File), (''a.c'', File), (''sub'', Dir [(''n.c'', File)])])"
    by code_simp
  show ?thesis
    using l s star_c_returns_direct_children [OF l, of demo_world]
    by (simp add: ishidden_def suffix_def)
qed

section \<open>C2: the document is a function of the listings\<close>

lemma relpath_body_cwd: "cwd w1 = cwd w2 \<Longrightarrow> relpath_body w1 = relpath_body w2"
  by (rule ext) (simp add: relpath_body_def abspath_def)

lemma sort_mset_eq:
  fixes xs ys :: "'a :: linorder list"
  assumes "mset xs = mset ys"
  shows "sort xs = sort ys"
  using assms by (intro properties_for_sort) simp_all

lemma discovered_mset:
  assumes "cwd w1 = cwd w2" "mset (listdir w1 d False) = mset (listdir w2 d False)"
  shows "discovered w1 d = discovered w2 d"
proof -
  have o: "out_path w1 d = out_path w2 d"
    using relpath_body_cwd [OF assms(1)] by (simp add: out_path_def [abs_def])
  have "mset (matching w1 d) = mset (matching w2 d)"
    using assms(2) by (simp add: matching_def)
  then have "mset (map (out_path w1 d) (matching w1 d)) = mset (map (out_path w2 d) (matching w2 d))"
    using o by simp
  then show ?thesis
    unfolding discovered_def by (rule sort_mset_eq)
qed

text \<open>
  Claim C2.  Two runs started in the same working directory, for which every searched
  directory holds the same entries (in whatever order the traversal reports them, so
  in particular when it reports the same listing), build the same document text.
\<close>

theorem same_listings_same_document:
  assumes "cwd w1 = cwd w2"
    and "\<forall>d \<in> set search_dirs. mset (listdir w1 d False) = mset (listdir w2 d False)"
  shows "vcxproj_of w1 = vcxproj_of w2"
proof -
  have "discovered w1 d = discovered w2 d" if "d \<in> set search_dirs" for d
    using that assms by (intro discovered_mset) auto
  then have "build_sources w1 = build_sources w2"
    by (simp add: build_sources_eq search_dirs_def)
  then show ?thesis
    by (simp add: vcxproj_of_def)
qed

theorem same_listings_same_document_witness:
  "cwd demo_world = cwd reordered_world \<and>
   listdir demo_world ''vendor/hashlink/src/std'' False = [''b.c'', ''a.c'', ''sub''] \<and>
   listdir reordered_world ''vendor/hashlink/src/std'' False = [''sub'', ''a.c'', ''b.c''] \<and>
   vcxproj_of demo_world = vcxproj_of reordered_world"
proof -
  have c: "cwd demo_world = cwd reordered_world"
    by (simp add: demo_world_def reordered_world_def)
  have l1: "map (\<lambda>d. listdir demo_world d False) search_dirs =
            [[''b.c'', ''a.c'', ''sub''], [], [''x.c'', ''win''], [''a.c''], []]"
    by code_simp
  have l2: "map (\<lambda>d. listdir reordered_world d False) search_dirs =
            [[''sub'', ''a.c'', ''b.c''], [], [''win'', ''x.c''], [''a.c''], []]"
    by code_simp
  have m: "\<forall>d \<in> set search_dirs.
             mset (listdir demo_world d False) = mset (listdir reordered_world d False)"
    using l1 l2 by (simp add: search_dirs_def)
  show ?thesis
    using c l1 l2 same_listings_same_document [OF c m] by (simp add: search_dirs_def)
qed

section \<open>C5: the order of groups and files\<close>



section \<open>C10: the hand-declared lists\<close>




section \<open>C8: a discovered group without files\<close>





section \<open>C7: the written file\<close>

lemma translate_newlines_append:
  "translate_newlines (a @ b) = translate_newlines a @ translate_newlines b"
  by (simp add: translate_newlines_def)













section \<open>C9: the summary\<close>




section \<open>C6: balanced markup and the number of entries\<close>














lemma count_step_no_lt:
  assumes "undecided m" "c \<noteq> CHR ''<''" "c \<noteq> LF"
  shows "\<exists>m'. count_step (m, k) c = (m', k) \<and> undecided m'"
  using assms by (auto simp: undecided_def split: option.splits list.splits)

lemma count_scan_no_lt:
  assumes "undecided m" "CHR ''<'' \<notin> set s" "LF \<notin> set s"
  shows "\<exists>m'. count_scan (m, k) s = (m', k) \<and> undecided m'"
  using assms
proof (induction s arbitrary: m)
  case Nil
  then show ?case by (simp add: count_scan_def)
next
  case (Cons c s)
  then obtain m1 where m1: "count_step (m, k) c = (m1, k)" "undecided m1"
    using count_step_no_lt [of m c k] by auto
  with Cons show ?case
    by (simp add: count_scan_def)
qed













end

